theory Spec2Isabelle
  imports Complex_Main "HOL-Library.Sublist"
begin

section \<open>Tasks\<close>

text \<open>
  The \<open>tasks\<close> table of \<open>shared/schema.ts\<close>, the schema that \<open>routes/tasks.ts\<close> and
  \<open>db.ts\<close> import. Its columns are \<open>id\<close>, \<open>title\<close>, \<open>description\<close>, \<open>priority\<close>, \<open>status\<close>,
  \<open>due_date\<close>, \<open>assignee_id\<close>, \<open>project_id\<close>, \<open>created_by\<close>, \<open>created_at\<close> and \<open>updated_at\<close>, and
  its enums are \<open>task_priority\<close> (\<open>low\<close>, \<open>medium\<close>, \<open>high\<close>) and \<open>task_status\<close> (\<open>pending\<close>,
  \<open>in_progress\<close>, \<open>completed\<close>, \<open>cancelled\<close>). A nullable column is an \<open>option\<close>; a timestamp
  is a number of milliseconds. The column \<open>id\<close> is the field \<open>task_id\<close>.

  The repository holds a second schema file, which declares the table under the names
  the routes use (\<open>projectId\<close>, \<open>assignedTo\<close>, \<open>createdBy\<close>, \<open>dueDate\<close>, \<open>createdAt\<close>,
  \<open>updatedAt\<close>, with the status \<open>todo\<close> and the priority \<open>critical\<close>); no import reaches it.
\<close>

datatype task_priority = Low | Medium | High

datatype task_status = Pending | In_progress | Completed | Cancelled

definition priority_of_string :: "string \<Rightarrow> task_priority option" where
  "priority_of_string s =
     (if s = ''low'' then Some Low
      else if s = ''medium'' then Some Medium
      else if s = ''high'' then Some High
      else None)"

definition status_of_string :: "string \<Rightarrow> task_status option" where
  "status_of_string s =
     (if s = ''pending'' then Some Pending
      else if s = ''in_progress'' then Some In_progress
      else if s = ''completed'' then Some Completed
      else if s = ''cancelled'' then Some Cancelled
      else None)"

record task =
  task_id :: int
  title :: string
  description :: "string option"
  priority :: task_priority
  status :: task_status
  due_date :: "int option"
  assignee_id :: "int option"
  project_id :: int
  created_by :: int
  created_at :: int
  updated_at :: int

section \<open>HTTP responses\<close>

text \<open>
  A handler answers with \<open>res.status(n).json(body)\<close>; \<open>res.json(body)\<close> alone is status 200.
  The bodies the task routes and the middleware send are the constructors of \<open>res_body\<close>:
  \<open>{error}\<close>, \<open>{error: 'Validation error', details}\<close>, \<open>{tasks, count}\<close>, \<open>{task}\<close>,
  \<open>{message, task}\<close> and \<open>{message}\<close>. Validation issues are those of the schema library:
  a code, the offending key and the message the schema gives for it (\<open>None\<close>: the
  library's default text).
\<close>

datatype issue_code = invalid_type | too_small | invalid_enum_value | invalid_string

datatype zod_issue = ZodIssue issue_code string "string option"

datatype res_body =
    Error string
  | ValidationError "zod_issue list"
  | TaskList "task list" nat
  | TaskBody task
  | MessageTask string "task option"
  | Message string

type_synonym response = "nat \<times> res_body"

section \<open>JavaScript values and helpers\<close>

text \<open>
  The parsed JSON body of a request. Numbers are exact rationals here: rounding to
  IEEE doubles is outside the model. An object is the list of its key/value pairs and
  \<open>obj_get\<close> reads a property (\<open>None\<close> is \<open>undefined\<close>).
\<close>

datatype json =
    JNull
  | JBool bool
  | JNum rat
  | JStr string
  | JArr "json list"
  | JObj "(string \<times> json) list"

definition obj_get :: "(string \<times> json) list \<Rightarrow> string \<Rightarrow> json option" where
  "obj_get kvs k = map_of kvs k"

text \<open>\<open>s.split(' ')\<close>: the pieces of \<open>s\<close> between single spaces, empty pieces kept.\<close>

fun split_acc :: "string \<Rightarrow> string \<Rightarrow> string list" where
  "split_acc cur [] = [rev cur]"
| "split_acc cur (c # cs) =
     (if c = CHR '' '' then rev cur # split_acc [] cs else split_acc (c # cur) cs)"

definition split_space :: "string \<Rightarrow> string list" where
  "split_space s = split_acc [] s"

text \<open>\<open>xs[i]\<close> on a JavaScript array: \<open>undefined\<close> out of range.\<close>

fun js_index :: "'a list \<Rightarrow> nat \<Rightarrow> 'a option" where
  "js_index [] i = None"
| "js_index (x # xs) 0 = Some x"
| "js_index (x # xs) (Suc i) = js_index xs i"

text \<open>
  \<open>parseInt(s)\<close> with no radix: leading white space is skipped, one sign is read, a
  \<open>0x\<close>/\<open>0X\<close> prefix selects radix 16 (radix 10 otherwise), and the longest run of digits
  of that radix is the value; with no digit the result is \<open>NaN\<close>, here \<open>None\<close>. The value
  is a mathematical integer (no rounding to a double).
\<close>

definition is_js_space :: "char \<Rightarrow> bool" where
  "is_js_space c = (let n = (of_char c :: nat) in (9 \<le> n \<and> n \<le> 13) \<or> n = 32 \<or> n = 160)"

definition digit_of :: "nat \<Rightarrow> char \<Rightarrow> nat option" where
  "digit_of radix c =
     (let n = (of_char c :: nat);
          d = (if 48 \<le> n \<and> n \<le> 57 then Some (n - 48)
               else if 97 \<le> n \<and> n \<le> 122 then Some (n - 87)
               else if 65 \<le> n \<and> n \<le> 90 then Some (n - 55)
               else None)
      in case d of None \<Rightarrow> None | Some v \<Rightarrow> if v < radix then Some v else None)"

fun read_digits :: "nat \<Rightarrow> nat option \<Rightarrow> string \<Rightarrow> nat option" where
  "read_digits radix acc [] = acc"
| "read_digits radix acc (c # cs) =
     (case digit_of radix c of
        None \<Rightarrow> acc
      | Some d \<Rightarrow> read_digits radix (Some ((case acc of None \<Rightarrow> 0 | Some a \<Rightarrow> a) * radix + d)) cs)"

definition parseInt :: "string \<Rightarrow> int option" where
  "parseInt s =
     (let s1 = dropWhile is_js_space s;
          sign = (case s1 of c # _ \<Rightarrow> if c = CHR ''-'' then (- 1 :: int) else 1 | [] \<Rightarrow> 1);
          s2 = (case s1 of c # cs \<Rightarrow> if c = CHR ''-'' \<or> c = CHR ''+'' then cs else s1 | [] \<Rightarrow> s1);
          hex = (case s2 of
                   a # b # _ \<Rightarrow> a = CHR ''0'' \<and> (b = CHR ''x'' \<or> b = CHR ''X'')
                 | _ \<Rightarrow> False);
          radix = (if hex then 16 else 10);
          s3 = (if hex then drop 2 s2 else s2)
      in map_option (\<lambda>n. sign * int n) (read_digits radix None s3))"

section \<open>Authentication middleware\<close>

text \<open>
  \<open>middleware/auth.ts\<close>. A middleware either answers the request itself or calls
  \<open>next()\<close>, having attached \<open>req.user\<close>. The token library is a parameter:
  \<open>jwt_verify token secret\<close> returns the decoded claims, or throws an error that is an
  instance of \<open>JsonWebTokenError\<close> (bad signature, malformed, expired or not yet valid
  token), or throws anything else.
\<close>

record JWTPayload =
  userId :: int
  role :: string

record user =
  user_id :: int
  user_role :: string

datatype verify_result = Decoded JWTPayload | JsonWebTokenError | OtherError

record jwt_env =
  jwt_verify :: "string \<Rightarrow> string \<Rightarrow> verify_result"
  JWT_SECRET :: string

datatype ('r, 'a) middleware = Respond 'r | Next 'a

definition bearer_token :: "string option \<Rightarrow> string option" where
  "bearer_token authHeader =
     (case authHeader of
        None \<Rightarrow> None
      | Some h \<Rightarrow> if h = [] then Some [] else js_index (split_space h) 1)"

definition authenticateToken :: "jwt_env \<Rightarrow> string option \<Rightarrow> (response, user) middleware" where
  "authenticateToken env authHeader =
     (case bearer_token authHeader of
        None \<Rightarrow> Respond (401, Error ''Access token required'')
      | Some token \<Rightarrow>
          if token = [] then Respond (401, Error ''Access token required'')
          else (case jwt_verify env token (JWT_SECRET env) of
                  Decoded decoded \<Rightarrow> Next \<lparr>user_id = userId decoded, user_role = role decoded\<rparr>
                | JsonWebTokenError \<Rightarrow> Respond (403, Error ''Invalid or expired token'')
                | OtherError \<Rightarrow> Respond (500, Error ''Authentication error'')))"

definition requireAdmin :: "user option \<Rightarrow> (response, user) middleware" where
  "requireAdmin req_user =
     (case req_user of
        None \<Rightarrow> Respond (401, Error ''Authentication required'')
      | Some u \<Rightarrow>
          if user_role u \<noteq> ''admin'' then Respond (403, Error ''Admin access required'')
          else Next u)"

section \<open>Request validation\<close>

text \<open>
  The schemas of \<open>routes/tasks.ts\<close>. The schema library and \<open>Date\<close> are parameters:
  \<open>isDatetime s\<close> is the check of \<open>z.string().datetime()\<close>, and \<open>newDate s\<close> is
  \<open>new Date(s)\<close>, a time value or an invalid date.

  A schema of the library parses the value found under a key (\<open>None\<close> when the key is
  absent) into its output, or reports issues. A string or a number runs all of its checks
  and reports every failure; an object parses every key of its shape, drops the other
  keys of the input, and fails with the issues of all its keys together.
\<close>

datatype js_date = Date int | InvalidDate

record lib =
  isDatetime :: "string \<Rightarrow> bool"
  newDate :: "string \<Rightarrow> js_date"

type_synonym 'a parsed = "zod_issue list + 'a"

definition check_min :: "nat \<Rightarrow> string option \<Rightarrow> string \<Rightarrow> string \<Rightarrow> zod_issue list" where
  "check_min n msg path s = (if length s < n then [ZodIssue too_small path msg] else [])"

definition check_datetime :: "lib \<Rightarrow> string \<Rightarrow> string \<Rightarrow> zod_issue list" where
  "check_datetime l path s = (if isDatetime l s then [] else [ZodIssue invalid_string path None])"

definition z_string :: "(string \<Rightarrow> string \<Rightarrow> zod_issue list) \<Rightarrow> string \<Rightarrow> json option \<Rightarrow> string parsed" where
  "z_string checks path v =
     (case v of
        Some (JStr s) \<Rightarrow> (if checks path s = [] then Inr s else Inl (checks path s))
      | _ \<Rightarrow> Inl [ZodIssue invalid_type path None])"

text \<open>\<open>z.enum(allowed)\<close>: a string that is one of the allowed values.\<close>

definition z_enum :: "string list \<Rightarrow> string \<Rightarrow> json option \<Rightarrow> string parsed" where
  "z_enum allowed path v =
     (case v of
        Some (JStr s) \<Rightarrow>
          (if s \<in> set allowed then Inr s else Inl [ZodIssue invalid_enum_value path None])
      | _ \<Rightarrow> Inl [ZodIssue invalid_type path None])"

text \<open>\<open>z.number().int().positive(msg)\<close>: the integer check, then the bound.\<close>

definition z_number_int_positive :: "string option \<Rightarrow> string \<Rightarrow> json option \<Rightarrow> int parsed" where
  "z_number_int_positive msg path v =
     (case v of
        Some (JNum r) \<Rightarrow>
          (let issues =
                 (if of_int \<lfloor>r\<rfloor> = r then [] else [ZodIssue invalid_type path None]) @
                 (if 0 < r then [] else [ZodIssue too_small path msg])
           in if issues = [] then Inr \<lfloor>r\<rfloor> else Inl issues)
      | _ \<Rightarrow> Inl [ZodIssue invalid_type path None])"

text \<open>\<open>.optional()\<close>: \<open>undefined\<close> passes as it is, anything else goes to the inner schema.\<close>

definition z_optional :: "(string \<Rightarrow> json option \<Rightarrow> 'a parsed) \<Rightarrow> string \<Rightarrow> json option \<Rightarrow> 'a option parsed" where
  "z_optional inner path v =
     (case v of
        None \<Rightarrow> Inr None
      | Some _ \<Rightarrow> (case inner path v of Inl e \<Rightarrow> Inl e | Inr x \<Rightarrow> Inr (Some x)))"

text \<open>\<open>.default(d)\<close>: \<open>undefined\<close> is replaced by \<open>d\<close>, then the inner schema parses.\<close>

definition z_default :: "json \<Rightarrow> (string \<Rightarrow> json option \<Rightarrow> 'a parsed) \<Rightarrow> string \<Rightarrow> json option \<Rightarrow> 'a parsed" where
  "z_default d inner path v = inner path (case v of None \<Rightarrow> Some d | Some x \<Rightarrow> Some x)"

text \<open>Collecting the keys of an object: the outputs when every key parses, else all issues.\<close>

definition ap :: "('a \<Rightarrow> 'b) parsed \<Rightarrow> 'a parsed \<Rightarrow> 'b parsed" where
  "ap pf px =
     (case pf of
        Inr f \<Rightarrow> (case px of Inr x \<Rightarrow> Inr (f x) | Inl e \<Rightarrow> Inl e)
      | Inl e \<Rightarrow> (case px of Inr x \<Rightarrow> Inl e | Inl e' \<Rightarrow> Inl (e @ e')))"

record create_data =
  c_title :: string
  c_description :: "string option"
  c_status :: "string option"
  c_priority :: "string option"
  c_projectId :: int
  c_assignedTo :: "int option"
  c_dueDate :: "string option"

record update_data =
  u_title :: "string option"
  u_description :: "string option"
  u_status :: "string option"
  u_priority :: "string option"
  u_assignedTo :: "int option"
  u_dueDate :: "string option"

definition createTaskSchema :: "lib \<Rightarrow> json \<Rightarrow> create_data parsed" where
  "createTaskSchema l body =
     (case body of
        JObj kvs \<Rightarrow>
          ap (ap (ap (ap (ap (ap (ap
            (Inr (\<lambda>t d s p pr a du.
               \<lparr>c_title = t, c_description = d, c_status = s, c_priority = p,
                c_projectId = pr, c_assignedTo = a, c_dueDate = du\<rparr>))
            (z_string (check_min 1 (Some ''Title is required'')) ''title'' (obj_get kvs ''title'')))
            (z_optional (z_string (\<lambda>_ _. [])) ''description'' (obj_get kvs ''description'')))
            (z_default (JStr ''todo'') (z_optional (z_enum [''todo'', ''in_progress'', ''review'', ''done''])) ''status''
               (obj_get kvs ''status'')))
            (z_default (JStr ''medium'') (z_optional (z_enum [''low'', ''medium'', ''high'', ''critical''])) ''priority''
               (obj_get kvs ''priority'')))
            (z_number_int_positive (Some ''Project ID must be a positive integer'') ''projectId''
               (obj_get kvs ''projectId'')))
            (z_optional (z_number_int_positive None) ''assignedTo'' (obj_get kvs ''assignedTo'')))
            (z_optional (z_string (check_datetime l)) ''dueDate'' (obj_get kvs ''dueDate''))
      | _ \<Rightarrow> Inl [ZodIssue invalid_type [] None])"

definition updateTaskSchema :: "lib \<Rightarrow> json \<Rightarrow> update_data parsed" where
  "updateTaskSchema l body =
     (case body of
        JObj kvs \<Rightarrow>
          ap (ap (ap (ap (ap (ap
            (Inr (\<lambda>t d s p a du.
               \<lparr>u_title = t, u_description = d, u_status = s, u_priority = p,
                u_assignedTo = a, u_dueDate = du\<rparr>))
            (z_optional (z_string (check_min 1 None)) ''title'' (obj_get kvs ''title'')))
            (z_optional (z_string (\<lambda>_ _. [])) ''description'' (obj_get kvs ''description'')))
            (z_optional (z_enum [''todo'', ''in_progress'', ''review'', ''done'']) ''status'' (obj_get kvs ''status'')))
            (z_optional (z_enum [''low'', ''medium'', ''high'', ''critical'']) ''priority'' (obj_get kvs ''priority'')))
            (z_optional (z_number_int_positive None) ''assignedTo'' (obj_get kvs ''assignedTo'')))
            (z_optional (z_string (check_datetime l)) ''dueDate'' (obj_get kvs ''dueDate''))
      | _ \<Rightarrow> Inl [ZodIssue invalid_type [] None])"

section \<open>The task store\<close>

text \<open>
  The database behind \<open>db\<close>, as far as the task routes reach it: the rows of \<open>tasks\<close> in
  the order of the table, the ids of the rows of \<open>projects\<close> and \<open>users\<close> that the foreign
  keys of \<open>tasks\<close> point to, and the task ids that rows of \<open>task_comments\<close> and \<open>files\<close>
  refer to (these references have no \<open>ON DELETE\<close> action, so such a task cannot be
  deleted). A statement either returns or raises. Lost connections are outside the model.
\<close>

record store =
  rows :: "task list"
  project_ids :: "int list"
  user_ids :: "int list"
  task_refs :: "int list"

datatype db_error = DbError

subsection \<open>The table object\<close>

text \<open>
  \<open>tasks.k\<close> in the routes reads the property \<open>k\<close> of the table object, which is a
  column for the eleven keys of the schema and \<open>undefined\<close> (\<open>None\<close>) for every other name.
\<close>

datatype column =
    col_id | col_title | col_description | col_priority | col_status | col_due_date
  | col_assignee_id | col_project_id | col_created_by | col_created_at | col_updated_at

definition tasks_table :: "(string \<times> column) list" where
  "tasks_table =
     [(''id'', col_id), (''title'', col_title), (''description'', col_description),
      (''priority'', col_priority), (''status'', col_status), (''due_date'', col_due_date),
      (''assignee_id'', col_assignee_id), (''project_id'', col_project_id),
      (''created_by'', col_created_by), (''created_at'', col_created_at),
      (''updated_at'', col_updated_at)]"

definition tasks_prop :: "string \<Rightarrow> column option" where
  "tasks_prop k = map_of tasks_table k"

subsection \<open>Values and cells\<close>

text \<open>
  The JavaScript values the routes hand to the query builder, and an object of them as
  the list of its keys with their values; \<open>js_get\<close> reads a key, \<open>assign\<close> writes one.
\<close>

datatype js_value =
    JsUndefined
  | JsNull
  | JsString string
  | JsNumber int
  | JsNaN
  | JsDate js_date

definition js_get :: "(string \<times> js_value) list \<Rightarrow> string \<Rightarrow> js_value" where
  "js_get obj k = (case map_of obj k of None \<Rightarrow> JsUndefined | Some x \<Rightarrow> x)"

definition assign :: "string \<Rightarrow> js_value \<Rightarrow> (string \<times> js_value) list \<Rightarrow> (string \<times> js_value) list" where
  "assign k x obj = (if k \<in> fst ` set obj then map (\<lambda>(k', y). if k' = k then (k', x) else (k', y)) obj
                     else obj @ [(k, x)])"

definition js_number :: "int option \<Rightarrow> js_value" where
  "js_number n = (case n of None \<Rightarrow> JsNaN | Some i \<Rightarrow> JsNumber i)"

definition js_string_opt :: "string option \<Rightarrow> js_value" where
  "js_string_opt s = (case s of None \<Rightarrow> JsUndefined | Some x \<Rightarrow> JsString x)"

definition js_number_opt :: "int option \<Rightarrow> js_value" where
  "js_number_opt n = (case n of None \<Rightarrow> JsUndefined | Some i \<Rightarrow> JsNumber i)"

text \<open>
  The value of a column in a row, and the conversion of a parameter to the type of the
  column it is compared with. \<open>integer\<close> and \<open>serial\<close> are 32-bit; a text must name a
  value of an enum column; a timestamp is sent by \<open>toISOString\<close>, which throws on an
  invalid date. A parameter of another JavaScript type than the column's does not pass
  the type checker of the routes and raises here.
\<close>

datatype cell =
    Null
  | IntCell int
  | TextCell string
  | TimeCell int
  | PriorityCell task_priority
  | StatusCell task_status

definition opt_cell :: "('a \<Rightarrow> cell) \<Rightarrow> 'a option \<Rightarrow> cell" where
  "opt_cell f x = (case x of None \<Rightarrow> Null | Some y \<Rightarrow> f y)"

fun cell_of :: "column \<Rightarrow> task \<Rightarrow> cell" where
  "cell_of col_id t = IntCell (task_id t)"
| "cell_of col_title t = TextCell (title t)"
| "cell_of col_description t = opt_cell TextCell (description t)"
| "cell_of col_priority t = PriorityCell (priority t)"
| "cell_of col_status t = StatusCell (status t)"
| "cell_of col_due_date t = opt_cell TimeCell (due_date t)"
| "cell_of col_assignee_id t = opt_cell IntCell (assignee_id t)"
| "cell_of col_project_id t = IntCell (project_id t)"
| "cell_of col_created_by t = IntCell (created_by t)"
| "cell_of col_created_at t = TimeCell (created_at t)"
| "cell_of col_updated_at t = TimeCell (updated_at t)"

definition int4 :: "int \<Rightarrow> bool" where
  "int4 n = (- 2147483648 \<le> n \<and> n \<le> 2147483647)"

datatype kind = KInt | KVarchar nat | KText | KPriority | KStatus | KTimestamp

fun kind_of :: "column \<Rightarrow> kind" where
  "kind_of col_id = KInt"
| "kind_of col_title = KVarchar 255"
| "kind_of col_description = KText"
| "kind_of col_priority = KPriority"
| "kind_of col_status = KStatus"
| "kind_of col_due_date = KTimestamp"
| "kind_of col_assignee_id = KInt"
| "kind_of col_project_id = KInt"
| "kind_of col_created_by = KInt"
| "kind_of col_created_at = KTimestamp"
| "kind_of col_updated_at = KTimestamp"

fun convert :: "kind \<Rightarrow> js_value \<Rightarrow> db_error + cell" where
  "convert k JsNull = Inr Null"
| "convert KInt (JsNumber n) = (if int4 n then Inr (IntCell n) else Inl DbError)"
| "convert (KVarchar m) (JsString s) = (if length s \<le> m then Inr (TextCell s) else Inl DbError)"
| "convert KText (JsString s) = Inr (TextCell s)"
| "convert KPriority (JsString s) =
     (case priority_of_string s of None \<Rightarrow> Inl DbError | Some p \<Rightarrow> Inr (PriorityCell p))"
| "convert KStatus (JsString s) =
     (case status_of_string s of None \<Rightarrow> Inl DbError | Some x \<Rightarrow> Inr (StatusCell x))"
| "convert KTimestamp (JsDate (Date d)) = Inr (TimeCell d)"
| "convert k v = Inl DbError"

text \<open>A parameter compared with a \<open>varchar\<close> column is a text of any length.\<close>

fun param_kind :: "kind \<Rightarrow> kind" where
  "param_kind (KVarchar m) = KText"
| "param_kind k = k"

subsection \<open>Conditions\<close>

text \<open>
  What \<open>eq\<close>, \<open>like\<close>, \<open>or\<close> and \<open>and\<close> build. The column of a comparison is whatever the
  property of the table object was, so it may be \<open>undefined\<close>; a statement that mentions
  an undefined column raises.
\<close>

datatype cond =
    Eq "column option" js_value
  | Like "column option" string
  | Or "cond list"
  | And "cond list"

text \<open>
  SQL \<open>LIKE\<close>: in a pattern \<open>%\<close> stands for any run of characters, \<open>_\<close> for any one
  character, and a backslash makes the character after it stand for itself; every other
  character stands for itself. Matching is case-sensitive and covers the whole text. A
  pattern that ends in a lone backslash raises.
\<close>

datatype like_tok = AnySeq | AnyChar | Lit char

fun like_tokens :: "string \<Rightarrow> like_tok list option" where
  "like_tokens [] = Some []"
| "like_tokens [c] =
     (if c = CHR 0x5C then None
      else if c = CHR ''%'' then Some [AnySeq]
      else if c = CHR ''_'' then Some [AnyChar]
      else Some [Lit c])"
| "like_tokens (c # d # cs) =
     (if c = CHR 0x5C then map_option ((#) (Lit d)) (like_tokens cs)
      else if c = CHR ''%'' then map_option ((#) AnySeq) (like_tokens (d # cs))
      else if c = CHR ''_'' then map_option ((#) AnyChar) (like_tokens (d # cs))
      else map_option ((#) (Lit c)) (like_tokens (d # cs)))"

fun like_match :: "like_tok list \<Rightarrow> string \<Rightarrow> bool" where
  "like_match [] s = (s = [])"
| "like_match (AnySeq # ps) [] = like_match ps []"
| "like_match (AnySeq # ps) (c # s) = (like_match ps (c # s) \<or> like_match (AnySeq # ps) s)"
| "like_match (AnyChar # ps) [] = False"
| "like_match (AnyChar # ps) (c # s) = like_match ps s"
| "like_match (Lit d # ps) [] = False"
| "like_match (Lit d # ps) (c # s) = (d = c \<and> like_match ps s)"

text \<open>Three-valued logic: \<open>None\<close> is SQL's unknown, the value of a comparison with NULL.\<close>

fun sql_and :: "bool option \<Rightarrow> bool option \<Rightarrow> bool option" where
  "sql_and (Some False) _ = Some False"
| "sql_and _ (Some False) = Some False"
| "sql_and (Some True) (Some True) = Some True"
| "sql_and _ _ = None"

fun sql_or :: "bool option \<Rightarrow> bool option \<Rightarrow> bool option" where
  "sql_or (Some True) _ = Some True"
| "sql_or _ (Some True) = Some True"
| "sql_or (Some False) (Some False) = Some False"
| "sql_or _ _ = None"

definition sql_eq :: "cell \<Rightarrow> cell \<Rightarrow> bool option" where
  "sql_eq a b = (if a = Null \<or> b = Null then None else Some (a = b))"

definition is_text :: "column \<Rightarrow> bool" where
  "is_text c = (case kind_of c of KVarchar m \<Rightarrow> True | KText \<Rightarrow> True | _ \<Rightarrow> False)"

text \<open>\<open>cond_binds\<close>: the statement with this condition can be built and its parameters bound.\<close>

fun cond_binds :: "cond \<Rightarrow> bool" where
  "cond_binds (Eq None v) = False"
| "cond_binds (Eq (Some c) v) =
     (case convert (param_kind (kind_of c)) v of Inl e \<Rightarrow> False | Inr x \<Rightarrow> True)"
| "cond_binds (Like None pat) = False"
| "cond_binds (Like (Some c) pat) = (is_text c \<and> like_tokens pat \<noteq> None)"
| "cond_binds (Or cs) = list_all cond_binds cs"
| "cond_binds (And cs) = list_all cond_binds cs"

fun cond_eval :: "cond \<Rightarrow> task \<Rightarrow> bool option" where
  "cond_eval (Eq None v) t = None"
| "cond_eval (Eq (Some c) v) t =
     (case convert (param_kind (kind_of c)) v of
        Inl e \<Rightarrow> None
      | Inr x \<Rightarrow> sql_eq (cell_of c t) x)"
| "cond_eval (Like None pat) t = None"
| "cond_eval (Like (Some c) pat) t =
     (case cell_of c t of
        TextCell s \<Rightarrow> map_option (\<lambda>toks. like_match toks s) (like_tokens pat)
      | _ \<Rightarrow> None)"
| "cond_eval (Or cs) t = foldr sql_or (map (\<lambda>c. cond_eval c t) cs) (Some False)"
| "cond_eval (And cs) t = foldr sql_and (map (\<lambda>c. cond_eval c t) cs) (Some True)"

text \<open>A row is selected when the condition is true of it (not false, not unknown).\<close>

definition selects :: "cond option \<Rightarrow> task \<Rightarrow> bool" where
  "selects w t = (case w of None \<Rightarrow> True | Some c \<Rightarrow> cond_eval c t = Some True)"

definition binds :: "cond option \<Rightarrow> bool" where
  "binds w = (case w of None \<Rightarrow> True | Some c \<Rightarrow> cond_binds c)"

subsection \<open>Statements\<close>

text \<open>
  \<open>select().from(tasks).where(w)\<close>, with \<open>.limit(n)\<close> or \<open>.orderBy(desc(col))\<close>. Ordering
  by an undefined column raises. In descending order NULL comes first; texts are compared
  by their characters and enum values by their place in the enum. The database fixes no
  order among rows of equal key; here they keep the order of the table.
\<close>

definition db_select :: "cond option \<Rightarrow> store \<Rightarrow> db_error + task list" where
  "db_select w st = (if binds w then Inr (filter (selects w) (rows st)) else Inl DbError)"

definition db_select_limit :: "cond option \<Rightarrow> nat \<Rightarrow> store \<Rightarrow> db_error + task list" where
  "db_select_limit w n st = map_sum id (take n) (db_select w st)"

fun string_le :: "string \<Rightarrow> string \<Rightarrow> bool" where
  "string_le [] s = True"
| "string_le (c # cs) [] = False"
| "string_le (c # cs) (d # ds) =
     ((of_char c :: nat) < of_char d \<or> (c = d \<and> string_le cs ds))"

fun priority_rank :: "task_priority \<Rightarrow> nat" where
  "priority_rank Low = 0"
| "priority_rank Medium = 1"
| "priority_rank High = 2"

fun status_rank :: "task_status \<Rightarrow> nat" where
  "status_rank Pending = 0"
| "status_rank In_progress = 1"
| "status_rank Completed = 2"
| "status_rank Cancelled = 3"

fun cell_le :: "cell \<Rightarrow> cell \<Rightarrow> bool" where
  "cell_le a Null = True"
| "cell_le (IntCell a) (IntCell b) = (a \<le> b)"
| "cell_le (TextCell a) (TextCell b) = string_le a b"
| "cell_le (TimeCell a) (TimeCell b) = (a \<le> b)"
| "cell_le (PriorityCell a) (PriorityCell b) = (priority_rank a \<le> priority_rank b)"
| "cell_le (StatusCell a) (StatusCell b) = (status_rank a \<le> status_rank b)"
| "cell_le a b = False"

fun insert_desc :: "column \<Rightarrow> task \<Rightarrow> task list \<Rightarrow> task list" where
  "insert_desc c t [] = [t]"
| "insert_desc c t (x # xs) =
     (if cell_le (cell_of c x) (cell_of c t) then t # x # xs else x # insert_desc c t xs)"

definition sort_desc :: "column \<Rightarrow> task list \<Rightarrow> task list" where
  "sort_desc c ts = foldr (insert_desc c) ts []"

definition db_select_orderBy_desc :: "cond option \<Rightarrow> column option \<Rightarrow> store \<Rightarrow> db_error + task list" where
  "db_select_orderBy_desc w col st =
     (case col of
        None \<Rightarrow> Inl DbError
      | Some c \<Rightarrow> map_sum id (sort_desc c) (db_select w st))"

text \<open>
  \<open>insert(tasks).values(v).returning()\<close>. Each column takes the value of its own key in
  \<open>v\<close>; a key of \<open>v\<close> that names no column is not looked at. A column whose key is
  \<open>undefined\<close> takes its default: the next value of the sequence for \<open>id\<close> (given here as
  \<open>new_id\<close>), the time of the statement for \<open>created_at\<close> and \<open>updated_at\<close>, \<open>medium\<close> and
  \<open>pending\<close> for \<open>priority\<close> and \<open>status\<close>, and NULL otherwise. The statement raises when
  a value does not convert to the type of its column, when a column declared
  \<open>notNull\<close> would be NULL, when a foreign key points to no row, and when \<open>id\<close> is taken.
\<close>

definition db_ap :: "db_error + ('a \<Rightarrow> 'b) \<Rightarrow> db_error + 'a \<Rightarrow> db_error + 'b" where
  "db_ap pf px =
     (case pf of
        Inl e \<Rightarrow> Inl e
      | Inr f \<Rightarrow> (case px of Inl e \<Rightarrow> Inl e | Inr x \<Rightarrow> Inr (f x)))"

definition or_default :: "'a \<Rightarrow> (js_value \<Rightarrow> db_error + 'a) \<Rightarrow> js_value \<Rightarrow> db_error + 'a" where
  "or_default d f v = (if v = JsUndefined then Inr d else f v)"

definition id_value :: "task list \<Rightarrow> js_value \<Rightarrow> db_error + int" where
  "id_value others v =
     (case convert KInt v of
        Inr (IntCell n) \<Rightarrow> if n \<in> task_id ` set others then Inl DbError else Inr n
      | _ \<Rightarrow> Inl DbError)"

definition text_value :: "kind \<Rightarrow> js_value \<Rightarrow> db_error + string" where
  "text_value k v = (case convert k v of Inr (TextCell s) \<Rightarrow> Inr s | _ \<Rightarrow> Inl DbError)"

definition priority_value :: "js_value \<Rightarrow> db_error + task_priority" where
  "priority_value v =
     (case convert KPriority v of Inr (PriorityCell p) \<Rightarrow> Inr p | _ \<Rightarrow> Inl DbError)"

definition status_value :: "js_value \<Rightarrow> db_error + task_status" where
  "status_value v =
     (case convert KStatus v of Inr (StatusCell x) \<Rightarrow> Inr x | _ \<Rightarrow> Inl DbError)"

definition timestamp_value :: "js_value \<Rightarrow> db_error + int" where
  "timestamp_value v =
     (case convert KTimestamp v of Inr (TimeCell d) \<Rightarrow> Inr d | _ \<Rightarrow> Inl DbError)"

definition ref_value :: "int list \<Rightarrow> js_value \<Rightarrow> db_error + int" where
  "ref_value ids v =
     (case convert KInt v of
        Inr (IntCell n) \<Rightarrow> if n \<in> set ids then Inr n else Inl DbError
      | _ \<Rightarrow> Inl DbError)"

text \<open>A column that may be NULL takes NULL from \<open>null\<close>, and otherwise a value as above.\<close>

definition nullable :: "(js_value \<Rightarrow> db_error + 'a) \<Rightarrow> js_value \<Rightarrow> db_error + 'a option" where
  "nullable f v = (if v = JsNull then Inr None else map_sum id Some (f v))"

definition db_insert ::
  "(string \<times> js_value) list \<Rightarrow> int \<Rightarrow> int \<Rightarrow> store \<Rightarrow> db_error + (task list \<times> store)" where
  "db_insert v now new_id st =
     (case db_ap (db_ap (db_ap (db_ap (db_ap (db_ap (db_ap (db_ap (db_ap (db_ap (db_ap
             (Inr (\<lambda>i t d p s du a pr cb ca ua.
                \<lparr>task_id = i, title = t, description = d, priority = p, status = s,
                 due_date = du, assignee_id = a, project_id = pr, created_by = cb,
                 created_at = ca, updated_at = ua\<rparr>))
             (id_value (rows st) (if js_get v ''id'' = JsUndefined then JsNumber new_id else js_get v ''id'')))
             (text_value (KVarchar 255) (js_get v ''title'')))
             (or_default None (nullable (text_value KText)) (js_get v ''description'')))
             (or_default Medium priority_value (js_get v ''priority'')))
             (or_default Pending status_value (js_get v ''status'')))
             (or_default None (nullable timestamp_value) (js_get v ''due_date'')))
             (or_default None (nullable (ref_value (user_ids st))) (js_get v ''assignee_id'')))
             (ref_value (project_ids st) (js_get v ''project_id'')))
             (ref_value (user_ids st) (js_get v ''created_by'')))
             (or_default now timestamp_value (js_get v ''created_at'')))
             (or_default now timestamp_value (js_get v ''updated_at'')) of
        Inl e \<Rightarrow> Inl e
      | Inr row \<Rightarrow> Inr ([row], st\<lparr>rows := rows st @ [row]\<rparr>))"

text \<open>
  \<open>update(tasks).set(s).where(w).returning()\<close>. A key of \<open>s\<close> whose value is \<open>undefined\<close> is
  dropped; a remaining key that names no column makes the statement throw. Otherwise
  each column whose key is in \<open>s\<close> takes the converted value, in every selected row, with
  the checks of an insert; the other columns stay.
\<close>

definition names_no_column :: "(string \<times> js_value) list \<Rightarrow> bool" where
  "names_no_column s = list_ex (\<lambda>(k, x). x \<noteq> JsUndefined \<and> tasks_prop k = None) s"

definition set_columns :: "(string \<times> js_value) list \<Rightarrow> store \<Rightarrow> task \<Rightarrow> db_error + task" where
  "set_columns s st t =
     db_ap (db_ap (db_ap (db_ap (db_ap (db_ap (db_ap (db_ap (db_ap (db_ap (db_ap
       (Inr (\<lambda>i ti d p x du a pr cb ca ua.
          \<lparr>task_id = i, title = ti, description = d, priority = p, status = x,
           due_date = du, assignee_id = a, project_id = pr, created_by = cb,
           created_at = ca, updated_at = ua\<rparr>))
       (or_default (task_id t) (id_value (filter (\<lambda>r. task_id r \<noteq> task_id t) (rows st)))
          (js_get s ''id'')))
       (or_default (title t) (text_value (KVarchar 255)) (js_get s ''title'')))
       (or_default (description t) (nullable (text_value KText)) (js_get s ''description'')))
       (or_default (priority t) priority_value (js_get s ''priority'')))
       (or_default (status t) status_value (js_get s ''status'')))
       (or_default (due_date t) (nullable timestamp_value) (js_get s ''due_date'')))
       (or_default (assignee_id t) (nullable (ref_value (user_ids st))) (js_get s ''assignee_id'')))
       (or_default (project_id t) (ref_value (project_ids st)) (js_get s ''project_id'')))
       (or_default (created_by t) (ref_value (user_ids st)) (js_get s ''created_by'')))
       (or_default (created_at t) timestamp_value (js_get s ''created_at'')))
       (or_default (updated_at t) timestamp_value (js_get s ''updated_at''))"

fun set_rows ::
  "(string \<times> js_value) list \<Rightarrow> cond option \<Rightarrow> store \<Rightarrow> task list \<Rightarrow> db_error + task list" where
  "set_rows s w st [] = Inr []"
| "set_rows s w st (t # ts) =
     (case (if selects w t then set_columns s st t else Inr t) of
        Inl e \<Rightarrow> Inl e
      | Inr t' \<Rightarrow> (case set_rows s w st ts of Inl e \<Rightarrow> Inl e | Inr ts' \<Rightarrow> Inr (t' # ts')))"

definition db_update ::
  "(string \<times> js_value) list \<Rightarrow> cond option \<Rightarrow> store \<Rightarrow> db_error + (task list \<times> store)" where
  "db_update s w st =
     (if names_no_column s \<or> \<not> binds w then Inl DbError
      else case set_rows s w st (rows st) of
             Inl e \<Rightarrow> Inl e
           | Inr rows' \<Rightarrow>
               Inr (map snd (filter (\<lambda>(t, t'). selects w t) (zip (rows st) rows')),
                    st\<lparr>rows := rows'\<rparr>))"

text \<open>
  \<open>delete(tasks).where(w)\<close>: raises when a selected task is referred to by a comment or a
  file.
\<close>

definition db_delete :: "cond option \<Rightarrow> store \<Rightarrow> db_error + store" where
  "db_delete w st =
     (if \<not> binds w then Inl DbError
      else if list_ex (\<lambda>t. selects w t \<and> task_id t \<in> set (task_refs st)) (rows st) then Inl DbError
      else Inr (st\<lparr>rows := filter (\<lambda>t. \<not> selects w t) (rows st)\<rparr>))"

section \<open>Task routes\<close>

text \<open>
  \<open>routes/tasks.ts\<close>. A handler is a function of what it reads from the request, the
  clock and the store; it returns its response and the store it leaves. Each \<open>try\<close>
  block is a chain of cases: a \<open>ZodError\<close> is answered with 400, any other exception
  with 500. A query parameter is a string or \<open>undefined\<close>, and \<open>if (p)\<close> holds of a
  string that is not empty. The routes name the columns \<open>tasks.id\<close>, \<open>tasks.status\<close>,
  \<open>tasks.priority\<close>, \<open>tasks.title\<close>, \<open>tasks.description\<close>, \<open>tasks.projectId\<close>,
  \<open>tasks.assignedTo\<close> and \<open>tasks.createdAt\<close>.
\<close>

record task_query =
  q_status :: "string option"
  q_priority :: "string option"
  q_projectId :: "string option"
  q_assignedTo :: "string option"
  q_search :: "string option"

definition push_if :: "string option \<Rightarrow> (string \<Rightarrow> cond) \<Rightarrow> cond list \<Rightarrow> cond list" where
  "push_if p mk conditions =
     (case p of
        None \<Rightarrow> conditions
      | Some s \<Rightarrow> if s \<noteq> [] then conditions @ [mk s] else conditions)"

definition build_conditions :: "task_query \<Rightarrow> cond list" where
  "build_conditions q =
     (let c0 = [];
          c1 = push_if (q_status q) (\<lambda>s. Eq (tasks_prop ''status'') (JsString s)) c0;
          c2 = push_if (q_priority q) (\<lambda>s. Eq (tasks_prop ''priority'') (JsString s)) c1;
          c3 = push_if (q_projectId q)
                 (\<lambda>s. Eq (tasks_prop ''projectId'') (js_number (parseInt s))) c2;
          c4 = push_if (q_assignedTo q)
                 (\<lambda>s. Eq (tasks_prop ''assignedTo'') (js_number (parseInt s))) c3;
          c5 = push_if (q_search q)
                 (\<lambda>s. Or [Like (tasks_prop ''title'') (''%'' @ s @ ''%''),
                           Like (tasks_prop ''description'') (''%'' @ s @ ''%'')]) c4
      in c5)"

definition tasks_get :: "task_query \<Rightarrow> store \<Rightarrow> response \<times> store" where
  "tasks_get q st =
     (let conditions = build_conditions q in
      case db_select_orderBy_desc
             (if length conditions > 0 then Some (And conditions) else None)
             (tasks_prop ''createdAt'') st of
        Inl _ \<Rightarrow> ((500, Error ''Failed to fetch tasks''), st)
      | Inr taskList \<Rightarrow> ((200, TaskList taskList (length taskList)), st))"

definition tasks_get_id :: "string \<Rightarrow> store \<Rightarrow> response \<times> store" where
  "tasks_get_id id_param st =
     (case parseInt id_param of
        None \<Rightarrow> ((400, Error ''Invalid task ID''), st)
      | Some taskId \<Rightarrow>
          (case db_select_limit (Some (Eq (tasks_prop ''id'') (JsNumber taskId))) 1 st of
             Inl _ \<Rightarrow> ((500, Error ''Failed to fetch task''), st)
           | Inr found \<Rightarrow>
               (case js_index found 0 of
                  None \<Rightarrow> ((404, Error ''Task not found''), st)
                | Some t \<Rightarrow> ((200, TaskBody t), st))))"

text \<open>The object handed to \<open>values\<close> in \<open>POST /\<close>.\<close>

definition insert_values :: "lib \<Rightarrow> user \<Rightarrow> create_data \<Rightarrow> (string \<times> js_value) list" where
  "insert_values l req_user validatedData =
     [(''title'', JsString (c_title validatedData)),
      (''description'', js_string_opt (c_description validatedData)),
      (''status'', js_string_opt (c_status validatedData)),
      (''priority'', js_string_opt (c_priority validatedData)),
      (''projectId'', JsNumber (c_projectId validatedData)),
      (''assignedTo'', js_number_opt (c_assignedTo validatedData)),
      (''createdBy'', JsNumber (user_id req_user)),
      (''dueDate'', (case c_dueDate validatedData of
                      None \<Rightarrow> JsNull
                    | Some d \<Rightarrow> if d \<noteq> [] then JsDate (newDate l d) else JsNull))]"

definition tasks_post :: "lib \<Rightarrow> user \<Rightarrow> json \<Rightarrow> int \<Rightarrow> int \<Rightarrow> store \<Rightarrow> response \<times> store" where
  "tasks_post l req_user body now new_id st =
     (case createTaskSchema l body of
        Inl issues \<Rightarrow> ((400, ValidationError issues), st)
      | Inr validatedData \<Rightarrow>
          (case db_insert (insert_values l req_user validatedData) now new_id st of
             Inl _ \<Rightarrow> ((500, Error ''Failed to create task''), st)
           | Inr (returned, st') \<Rightarrow>
               ((201, MessageTask ''Task created successfully'' (js_index returned 0)), st')))"

text \<open>
  The object handed to \<open>set\<close> in \<open>PUT /:id\<close>: the validated data spread into it, the time
  of the request as \<open>updatedAt\<close>, and \<open>dueDate\<close> replaced by a \<open>Date\<close> when it is truthy.
\<close>

definition build_updateData :: "lib \<Rightarrow> update_data \<Rightarrow> int \<Rightarrow> (string \<times> js_value) list" where
  "build_updateData l validatedData now =
     (let updateData =
            [(''title'', js_string_opt (u_title validatedData)),
             (''description'', js_string_opt (u_description validatedData)),
             (''status'', js_string_opt (u_status validatedData)),
             (''priority'', js_string_opt (u_priority validatedData)),
             (''assignedTo'', js_number_opt (u_assignedTo validatedData)),
             (''dueDate'', js_string_opt (u_dueDate validatedData)),
             (''updatedAt'', JsDate (Date now))]
      in case u_dueDate validatedData of
           None \<Rightarrow> updateData
         | Some d \<Rightarrow>
             if d \<noteq> [] then assign ''dueDate'' (JsDate (newDate l d)) updateData
             else updateData)"

definition tasks_put_id :: "lib \<Rightarrow> string \<Rightarrow> json \<Rightarrow> int \<Rightarrow> store \<Rightarrow> response \<times> store" where
  "tasks_put_id l id_param body now st =
     (case parseInt id_param of
        None \<Rightarrow> ((400, Error ''Invalid task ID''), st)
      | Some taskId \<Rightarrow>
          (case updateTaskSchema l body of
             Inl issues \<Rightarrow> ((400, ValidationError issues), st)
           | Inr validatedData \<Rightarrow>
               (case db_select_limit (Some (Eq (tasks_prop ''id'') (JsNumber taskId))) 1 st of
                  Inl _ \<Rightarrow> ((500, Error ''Failed to update task''), st)
                | Inr found \<Rightarrow>
                    (case js_index found 0 of
                       None \<Rightarrow> ((404, Error ''Task not found''), st)
                     | Some existingTask \<Rightarrow>
                         (case db_update (build_updateData l validatedData now)
                                 (Some (Eq (tasks_prop ''id'') (JsNumber taskId))) st of
                            Inl _ \<Rightarrow> ((500, Error ''Failed to update task''), st)
                          | Inr (returned, st') \<Rightarrow>
                              ((200, MessageTask ''Task updated successfully'' (js_index returned 0)),
                               st'))))))"

definition tasks_delete_id :: "string \<Rightarrow> store \<Rightarrow> response \<times> store" where
  "tasks_delete_id id_param st =
     (case parseInt id_param of
        None \<Rightarrow> ((400, Error ''Invalid task ID''), st)
      | Some taskId \<Rightarrow>
          (case db_select_limit (Some (Eq (tasks_prop ''id'') (JsNumber taskId))) 1 st of
             Inl _ \<Rightarrow> ((500, Error ''Failed to delete task''), st)
           | Inr found \<Rightarrow>
               (case js_index found 0 of
                  None \<Rightarrow> ((404, Error ''Task not found''), st)
                | Some existingTask \<Rightarrow>
                    (case db_delete (Some (Eq (tasks_prop ''id'') (JsNumber taskId))) st of
                       Inl _ \<Rightarrow> ((500, Error ''Failed to delete task''), st)
                     | Inr st' \<Rightarrow> ((200, Message ''Task deleted successfully''), st')))))"

text \<open>
  Every task route is mounted behind \<open>authenticateToken\<close>: the handler runs only when
  the middleware calls \<open>next()\<close>, with the identity it attached.
\<close>

definition protected ::
  "jwt_env \<Rightarrow> string option \<Rightarrow> (user \<Rightarrow> store \<Rightarrow> response \<times> store) \<Rightarrow> store \<Rightarrow> response \<times> store" where
  "protected env authHeader handler st =
     (case authenticateToken env authHeader of
        Respond r \<Rightarrow> (r, st)
      | Next u \<Rightarrow> handler u st)"

section \<open>Example inputs\<close>

text \<open>
  A library that accepts one date string, a token verifier that knows one good token, and
  a store of two tasks of project 5, with the users 3, 7 and 8.
\<close>

definition example_lib :: lib where
  "example_lib =
     \<lparr>isDatetime = (\<lambda>s. s = ''2030-01-01T00:00:00Z''),
      newDate = (\<lambda>s. if s = ''2030-01-01T00:00:00Z'' then Date 1893456000000 else InvalidDate)\<rparr>"

definition example_env :: jwt_env where
  "example_env =
     \<lparr>jwt_verify = (\<lambda>token secret.
        if token = ''good'' \<and> secret = ''s3cret'' then Decoded \<lparr>userId = 7, role = ''user''\<rparr>
        else if token = ''boom'' then OtherError
        else JsonWebTokenError),
      JWT_SECRET = ''s3cret''\<rparr>"

definition task_a :: task where
  "task_a =
     \<lparr>task_id = 1, title = ''Implement feature X'', description = None, priority = Medium,
      status = Pending, due_date = None, assignee_id = None, project_id = 5, created_by = 7,
      created_at = 100, updated_at = 100\<rparr>"

definition task_b :: task where
  "task_b =
     \<lparr>task_id = 2, title = ''Fix bug'', description = Some ''urgent'', priority = High,
      status = Completed, due_date = None, assignee_id = Some 3, project_id = 5, created_by = 8,
      created_at = 200, updated_at = 200\<rparr>"

definition example_store :: store where
  "example_store =
     \<lparr>rows = [task_a, task_b], project_ids = [5], user_ids = [3, 7, 8], task_refs = []\<rparr>"

definition no_filter :: task_query where
  "no_filter =
     \<lparr>q_status = None, q_priority = None, q_projectId = None, q_assignedTo = None,
      q_search = None\<rparr>"

section \<open>Properties of the middleware\<close>

lemma split_acc_no_space: "CHR '' '' \<notin> set s \<Longrightarrow> split_acc cur s = [rev cur @ s]"
  by (induction s arbitrary: cur) auto

lemma bearer_token_Bearer:
  assumes "CHR '' '' \<notin> set token"
  shows "bearer_token (Some (''Bearer '' @ token)) = Some token"
  using assms by (simp add: bearer_token_def split_space_def split_acc_no_space)

text \<open>
  Claim C4. The credential verifier answers 401 when the header carries no token (no
  header, or no non-empty second field after a space), 403 when the token library rejects
  the token as invalid, expired or tampered, 500 when verification fails in any other way,
  and otherwise calls \<open>next()\<close> with the identity made of the token's \<open>userId\<close> and \<open>role\<close>.
  The token of a header \<open>Bearer t\<close> is \<open>t\<close>. Behind the verifier a route's handler runs
  only on success; on failure the verifier's answer is the route's and the store is
  untouched.
\<close>

theorem authenticateToken_outcomes:
  "(bearer_token authHeader = None \<or> bearer_token authHeader = Some [] \<longrightarrow>
      authenticateToken env authHeader = Respond (401, Error ''Access token required''))
   \<and> (\<forall>token. bearer_token authHeader = Some token \<and> token \<noteq> [] \<longrightarrow>
        (jwt_verify env token (JWT_SECRET env) = JsonWebTokenError \<longrightarrow>
           authenticateToken env authHeader = Respond (403, Error ''Invalid or expired token''))
      \<and> (jwt_verify env token (JWT_SECRET env) = OtherError \<longrightarrow>
           authenticateToken env authHeader = Respond (500, Error ''Authentication error''))
      \<and> (\<forall>decoded. jwt_verify env token (JWT_SECRET env) = Decoded decoded \<longrightarrow>
           authenticateToken env authHeader =
             Next \<lparr>user_id = userId decoded, user_role = role decoded\<rparr>))
   \<and> (authHeader = None \<longrightarrow> bearer_token authHeader = None)
   \<and> (\<forall>token. CHR '' '' \<notin> set token \<and> authHeader = Some (''Bearer '' @ token) \<longrightarrow>
        bearer_token authHeader = Some token)
   \<and> (\<forall>r. authenticateToken env authHeader = Respond r \<longrightarrow>
        protected env authHeader handler st = (r, st))
   \<and> (\<forall>u. authenticateToken env authHeader = Next u \<longrightarrow>
        protected env authHeader handler st = handler u st)"
proof -
  have "\<forall>token. CHR '' '' \<notin> set token \<and> authHeader = Some (''Bearer '' @ token) \<longrightarrow>
        bearer_token authHeader = Some token"
    using bearer_token_Bearer by blast
  moreover have "authHeader = None \<longrightarrow> bearer_token authHeader = None"
    by (simp add: bearer_token_def)
  ultimately show ?thesis
    by (simp add: authenticateToken_def protected_def)
qed

theorem authenticateToken_outcomes_witness:
  "authenticateToken example_env None = Respond (401, Error ''Access token required'')
   \<and> authenticateToken example_env (Some ''Bearer'') = Respond (401, Error ''Access token required'')
   \<and> authenticateToken example_env (Some ''Bearer forged'') =
       Respond (403, Error ''Invalid or expired token'')
   \<and> authenticateToken example_env (Some ''Bearer boom'') =
       Respond (500, Error ''Authentication error'')
   \<and> authenticateToken example_env (Some ''Bearer good'') =
       Next \<lparr>user_id = 7, user_role = ''user''\<rparr>
   \<and> protected example_env None (\<lambda>u. tasks_get no_filter) example_store =
       ((401, Error ''Access token required''), example_store)"
proof -
  have t: "bearer_token None = None" "bearer_token (Some ''Bearer'') = None"
    "bearer_token (Some ''Bearer forged'') = Some ''forged''"
    "bearer_token (Some ''Bearer boom'') = Some ''boom''"
    "bearer_token (Some ''Bearer good'') = Some ''good''"
    by (simp_all add: bearer_token_def split_space_def)
  have v: "jwt_verify example_env ''forged'' (JWT_SECRET example_env) = JsonWebTokenError"
    "jwt_verify example_env ''boom'' (JWT_SECRET example_env) = OtherError"
    "jwt_verify example_env ''good'' (JWT_SECRET example_env) = Decoded \<lparr>userId = 7, role = ''user''\<rparr>"
    by (simp_all add: example_env_def)
  have a: "authenticateToken example_env None = Respond (401, Error ''Access token required'')"
    using authenticateToken_outcomes [of None example_env, THEN conjunct1] t(1) by blast
  have b: "authenticateToken example_env (Some ''Bearer'') =
      Respond (401, Error ''Access token required'')"
    using authenticateToken_outcomes [of "Some ''Bearer''" example_env, THEN conjunct1] t(2)
    by blast
  have c: "authenticateToken example_env (Some ''Bearer forged'') =
      Respond (403, Error ''Invalid or expired token'')"
    using authenticateToken_outcomes [of "Some ''Bearer forged''" example_env, THEN conjunct2,
        THEN conjunct1, rule_format, of "''forged''"] t(3) v(1)
    by blast
  have d: "authenticateToken example_env (Some ''Bearer boom'') =
      Respond (500, Error ''Authentication error'')"
    using authenticateToken_outcomes [of "Some ''Bearer boom''" example_env, THEN conjunct2,
        THEN conjunct1, rule_format, of "''boom''"] t(4) v(2)
    by blast
  have e: "authenticateToken example_env (Some ''Bearer good'') =
      Next \<lparr>user_id = 7, user_role = ''user''\<rparr>"
    using authenticateToken_outcomes [of "Some ''Bearer good''" example_env, THEN conjunct2,
        THEN conjunct1, rule_format, of "''good''"] t(5) v(3)
    by auto
  have f: "protected example_env None (\<lambda>u. tasks_get no_filter) example_store =
      ((401, Error ''Access token required''), example_store)"
    by (rule authenticateToken_outcomes [THEN conjunct2, THEN conjunct2, THEN conjunct2,
          THEN conjunct2, THEN conjunct1, rule_format, OF a])
  from a b c d e f show ?thesis by (intro conjI)
qed

text \<open>
  Claim C8. The authorization gate calls \<open>next()\<close> exactly when an identity is attached
  and its role is \<open>admin\<close>; with an identity of any other role it answers 403, and with
  no identity it answers 401.
\<close>

theorem requireAdmin_gate:
  "((\<exists>u. requireAdmin req_user = Next u) \<longleftrightarrow> (\<exists>u. req_user = Some u \<and> user_role u = ''admin''))
   \<and> (\<forall>u. requireAdmin req_user = Next u \<longrightarrow> req_user = Some u)
   \<and> (\<forall>u. req_user = Some u \<and> user_role u \<noteq> ''admin'' \<longrightarrow>
        requireAdmin req_user = Respond (403, Error ''Admin access required''))
   \<and> (req_user = None \<longrightarrow>
        requireAdmin req_user = Respond (401, Error ''Authentication required''))"
  by (auto simp: requireAdmin_def split: option.splits)

theorem requireAdmin_gate_witness:
  "(\<exists>u. requireAdmin (Some \<lparr>user_id = 1, user_role = ''admin''\<rparr>) = Next u)
   \<and> requireAdmin (Some \<lparr>user_id = 7, user_role = ''user''\<rparr>) =
       Respond (403, Error ''Admin access required'')
   \<and> requireAdmin None = Respond (401, Error ''Authentication required'')"
proof (intro conjI)
  show "\<exists>u. requireAdmin (Some \<lparr>user_id = 1, user_role = ''admin''\<rparr>) = Next u"
    using requireAdmin_gate [of "Some \<lparr>user_id = 1, user_role = ''admin''\<rparr>", THEN conjunct1]
    by simp
  show "requireAdmin (Some \<lparr>user_id = 7, user_role = ''user''\<rparr>) =
      Respond (403, Error ''Admin access required'')"
    using requireAdmin_gate [of "Some \<lparr>user_id = 7, user_role = ''user''\<rparr>",
        THEN conjunct2, THEN conjunct2, THEN conjunct1]
    by simp
  show "requireAdmin None = Respond (401, Error ''Authentication required'')"
    using requireAdmin_gate [of None, THEN conjunct2, THEN conjunct2, THEN conjunct2]
    by simp
qed

section \<open>Properties of the store\<close>

text \<open>
  The table object has no property \<open>createdAt\<close>, \<open>updatedAt\<close>, \<open>projectId\<close>, \<open>assignedTo\<close>,
  \<open>createdBy\<close> or \<open>dueDate\<close>: the schema names these columns \<open>created_at\<close>, \<open>updated_at\<close>,
  \<open>project_id\<close>, \<open>assignee_id\<close>, \<open>created_by\<close> and \<open>due_date\<close>.
\<close>

lemma tasks_prop_undefined:
  "tasks_prop ''createdAt'' = None" "tasks_prop ''updatedAt'' = None"
  "tasks_prop ''projectId'' = None" "tasks_prop ''assignedTo'' = None"
  "tasks_prop ''createdBy'' = None" "tasks_prop ''dueDate'' = None"
  by (simp_all add: tasks_prop_def tasks_table_def)

lemma tasks_prop_id: "tasks_prop ''id'' = Some col_id"
  by (simp add: tasks_prop_def tasks_table_def)

lemma db_error_unique: "(e :: db_error) = DbError"
  by (cases e) simp

lemma db_ap_Inl: "db_ap pf (Inl e) = Inl DbError" "db_ap (Inl e) px = Inl DbError"
  by (simp_all add: db_ap_def db_error_unique split: sum.splits)

lemma js_index_take_filter: "js_index (take (Suc 0) (filter P xs)) 0 = find P xs"
  by (induction xs) auto

lemma find_absent: "n \<notin> task_id ` set xs \<Longrightarrow> find (\<lambda>t. task_id t = n) xs = None"
  by (auto simp: find_None_iff)

lemma find_present:
  "n \<in> task_id ` set xs \<Longrightarrow> \<exists>t. find (\<lambda>t. task_id t = n) xs = Some t"
  by (induction xs) auto

text \<open>A task is looked up by an id of the 32-bit range; beyond it the statement raises.\<close>

lemma select_by_id:
  assumes "int4 n"
  shows "db_select_limit (Some (Eq (tasks_prop ''id'') (JsNumber n))) (Suc 0) st =
           Inr (take (Suc 0) (filter (\<lambda>t. task_id t = n) (rows st)))"
proof -
  have "selects (Some (Eq (Some col_id) (JsNumber n))) = (\<lambda>t. task_id t = n)"
    using assms by (intro ext) (simp add: selects_def sql_eq_def)
  then show ?thesis
    using assms by (simp add: db_select_limit_def db_select_def binds_def tasks_prop_id)
qed

lemma select_by_id_out_of_range:
  assumes "\<not> int4 n"
  shows "db_select_limit (Some (Eq (tasks_prop ''id'') (JsNumber n))) (Suc 0) st = Inl DbError"
  using assms by (simp add: db_select_limit_def db_select_def binds_def tasks_prop_id)

text \<open>An insert whose values have no key \<open>project_id\<close> raises: the column is \<open>notNull\<close>.\<close>

lemma insert_needs_project_id:
  assumes "js_get v ''project_id'' = JsUndefined"
  shows "db_insert v now new_id st = Inl DbError"
proof -
  have "ref_value (project_ids st) (js_get v ''project_id'') = Inl DbError"
    using assms by (simp add: ref_value_def)
  then show ?thesis
    by (simp add: db_insert_def db_ap_Inl)
qed

text \<open>An update whose object has a key that names no column raises.\<close>

lemma db_update_unknown_key:
  assumes "names_no_column s"
  shows "db_update s w st = Inl DbError"
  using assms by (simp add: db_update_def)

lemma assign_keeps:
  assumes "(k', y) \<in> set obj" and "k' \<noteq> k"
  shows "(k', y) \<in> set (assign k x obj)"
proof (cases "k \<in> fst ` set obj")
  case True
  have "(\<lambda>(k', y). if k' = k then (k', x) else (k', y)) (k', y) = (k', y)"
    using assms(2) by simp
  then have "(k', y) \<in> (\<lambda>(k', y). if k' = k then (k', x) else (k', y)) ` set obj"
    using assms(1) by (metis (no_types, lifting) image_eqI)
  then show ?thesis using True by (simp add: assign_def)
next
  case False
  then show ?thesis using assms(1) by (simp add: assign_def)
qed

section \<open>Properties of the task routes\<close>

text \<open>
  Every list request is answered 500: the statement orders by \<open>tasks.createdAt\<close>, which is
  \<open>undefined\<close>.
\<close>

lemma tasks_get_fails: "tasks_get q st = ((500, Error ''Failed to fetch tasks''), st)"
  by (simp add: tasks_get_def db_select_orderBy_desc_def tasks_prop_undefined)

text \<open>
  Every payload that passes the create schema is answered 500 and nothing is stored: the
  values of the route carry the project under the key \<open>projectId\<close> and the creator under
  \<open>createdBy\<close>, so the columns \<open>project_id\<close> and \<open>created_by\<close> get no value.
\<close>

lemma insert_values_project_id: "js_get (insert_values l u v) ''project_id'' = JsUndefined"
  by (simp add: insert_values_def js_get_def)

lemma tasks_post_valid_fails:
  assumes "createTaskSchema l body = Inr v"
  shows "tasks_post l u body now new_id st = ((500, Error ''Failed to create task''), st)"
  using assms
  by (simp add: tasks_post_def insert_needs_project_id [OF insert_values_project_id])

text \<open>
  The object of an update always has the key \<open>updatedAt\<close>, which names no column, so
  the update statement of \<open>PUT /:id\<close> raises whenever the route reaches it.
\<close>

lemma build_updateData_unknown_key: "names_no_column (build_updateData l v now)"
proof -
  let ?u = "(''updatedAt'', JsDate (Date now))"
  let ?obj = "[(''title'', js_string_opt (u_title v)),
             (''description'', js_string_opt (u_description v)),
             (''status'', js_string_opt (u_status v)),
             (''priority'', js_string_opt (u_priority v)),
             (''assignedTo'', js_number_opt (u_assignedTo v)),
             (''dueDate'', js_string_opt (u_dueDate v)),
             ?u]"
  have m: "?u \<in> set ?obj" by simp
  have n: "''updatedAt'' \<noteq> ''dueDate''" by simp
  have a: "?u \<in> set (assign ''dueDate'' x ?obj)" for x
    by (rule assign_keeps [OF m n])
  have b: "?u \<in> set (build_updateData l v now)"
  proof (cases "u_dueDate v")
    case None
    then have "build_updateData l v now = ?obj"
      by (simp add: build_updateData_def)
    then show ?thesis using m by (simp only:)
  next
    case (Some d)
    show ?thesis
    proof (cases "d = []")
      case True
      with Some have "build_updateData l v now = ?obj"
        by (simp add: build_updateData_def)
      then show ?thesis using m by (simp only:)
    next
      case False
      with Some have "build_updateData l v now = assign ''dueDate'' (JsDate (newDate l d)) ?obj"
        by (simp add: build_updateData_def)
      then show ?thesis using a by (simp only:)
    qed
  qed
  show ?thesis
    unfolding names_no_column_def list_ex_iff
  proof (rule bexI [OF _ b])
    show "case ?u of (k, x) \<Rightarrow> x \<noteq> JsUndefined \<and> tasks_prop k = None"
      by (simp add: tasks_prop_undefined)
  qed
qed

lemma tasks_put_id_cases:
  "tasks_put_id l id_param body now st = ((400, Error ''Invalid task ID''), st)
   \<or> (\<exists>issues. tasks_put_id l id_param body now st = ((400, ValidationError issues), st))
   \<or> tasks_put_id l id_param body now st = ((404, Error ''Task not found''), st)
   \<or> tasks_put_id l id_param body now st = ((500, Error ''Failed to update task''), st)"
  by (simp add: tasks_put_id_def db_update_unknown_key [OF build_updateData_unknown_key]
      split: option.splits sum.splits)

lemma tasks_put_id_existing_fails:
  assumes "parseInt id_param = Some n" and "int4 n" and "updateTaskSchema l body = Inr v"
    and "n \<in> task_id ` set (rows st)"
  shows "tasks_put_id l id_param body now st = ((500, Error ''Failed to update task''), st)"
proof -
  obtain t where "find (\<lambda>t. task_id t = n) (rows st) = Some t"
    using find_present [OF assms(4)] by blast
  then show ?thesis
    using assms(1,3)
    by (simp add: tasks_put_id_def select_by_id [OF assms(2)] js_index_take_filter
        db_update_unknown_key [OF build_updateData_unknown_key])
qed

text \<open>
  Claim C9. When \<open>parseInt\<close> of the \<open>:id\<close> parameter is \<open>NaN\<close>, the routes \<open>GET /:id\<close>,
  \<open>PUT /:id\<close> and \<open>DELETE /:id\<close> answer 400 with \<open>Invalid task ID\<close>, whatever the body and
  the store are, and leave the store as it was.
\<close>

theorem invalid_id_is_400:
  assumes "parseInt id_param = None"
  shows "tasks_get_id id_param st = ((400, Error ''Invalid task ID''), st)
       \<and> tasks_put_id l id_param body now st = ((400, Error ''Invalid task ID''), st)
       \<and> tasks_delete_id id_param st = ((400, Error ''Invalid task ID''), st)"
  using assms by (simp add: tasks_get_id_def tasks_put_id_def tasks_delete_id_def)

theorem invalid_id_is_400_witness:
  "tasks_get_id ''abc'' example_store = ((400, Error ''Invalid task ID''), example_store)
   \<and> tasks_put_id example_lib ''abc'' (JObj [(''title'', JStr '''')]) 1000 example_store =
       ((400, Error ''Invalid task ID''), example_store)
   \<and> tasks_delete_id ''abc'' example_store = ((400, Error ''Invalid task ID''), example_store)"
proof -
  have h: "parseInt ''abc'' = None"
    by (simp add: parseInt_def is_js_space_def digit_of_def)
  show ?thesis
    by (rule invalid_id_is_400 [OF h])
qed

text \<open>
  Claim C10. In \<open>PUT /:id\<close> the body is validated before the task is looked up: with a
  numeric id and a body that fails the update schema the answer is 400 with the issues
  of the body, whether or not the id is in the store, and the store stays as it was.
\<close>

theorem put_validates_before_lookup:
  assumes "parseInt id_param = Some taskId"
      and "updateTaskSchema l body = Inl issues"
  shows "tasks_put_id l id_param body now st = ((400, ValidationError issues), st)"
  using assms by (simp add: tasks_put_id_def)

theorem put_validates_before_lookup_witness:
  "999 \<notin> task_id ` set (rows example_store)
   \<and> tasks_put_id example_lib ''999'' (JObj [(''title'', JStr '''')]) 1000 example_store =
       ((400, ValidationError [ZodIssue too_small ''title'' None]), example_store)"
proof -
  have h: "parseInt ''999'' = Some 999"
    by (simp add: parseInt_def is_js_space_def digit_of_def)
  have i: "updateTaskSchema example_lib (JObj [(''title'', JStr '''')]) =
      Inl [ZodIssue too_small ''title'' None]"
    by (simp add: updateTaskSchema_def ap_def z_string_def z_optional_def check_min_def
        obj_get_def)
  have "999 \<notin> task_id ` set (rows example_store)"
    by (simp add: example_store_def task_a_def task_b_def)
  then show ?thesis
    using put_validates_before_lookup [OF h i, of 1000 example_store] by simp
qed

text \<open>
  Claim C5, as the specification states it, fails for \<open>PUT /:id\<close>: with an id that is
  not in the store and a body that fails the update schema the answer is 400, not 404.
\<close>

theorem absent_id_put_counterexample:
  "parseInt ''999'' = Some 999
   \<and> 999 \<notin> task_id ` set (rows example_store)
   \<and> tasks_put_id example_lib ''999'' (JObj [(''status'', JStr ''finished'')]) 1000 example_store =
       ((400, ValidationError [ZodIssue invalid_enum_value ''status'' None]), example_store)"
  by (simp add: tasks_put_id_def parseInt_def is_js_space_def digit_of_def updateTaskSchema_def
      ap_def z_enum_def z_optional_def obj_get_def example_store_def task_a_def task_b_def)

text \<open>
  Outside the 32-bit range of the \<open>id\<close> column the lookup raises, and the routes answer 500
  for an id that is numeric and not in the store.
\<close>

lemma out_of_range_id_is_500:
  assumes "parseInt id_param = Some n" and "\<not> int4 n"
  shows "tasks_get_id id_param st = ((500, Error ''Failed to fetch task''), st)"
    and "tasks_delete_id id_param st = ((500, Error ''Failed to delete task''), st)"
  using assms
  by (simp_all add: tasks_get_id_def tasks_delete_id_def select_by_id_out_of_range)

text \<open>
  Claim C5, amended. For a numeric id within the 32-bit range of the \<open>id\<close> column that is
  not in the store, \<open>GET /:id\<close> and \<open>DELETE /:id\<close> answer 404, and so does \<open>PUT /:id\<close> when
  its body passes the update schema; each leaves the store as it was, so that a repeated
  call gives the same answer. \<open>POST /\<close> answers 201, 400 or 500, never 404.
\<close>

theorem absent_id_is_404:
  assumes "parseInt id_param = Some n" and "int4 n" and "n \<notin> task_id ` set (rows st)"
  shows "tasks_get_id id_param st = ((404, Error ''Task not found''), st)
       \<and> tasks_delete_id id_param st = ((404, Error ''Task not found''), st)
       \<and> (\<forall>v. updateTaskSchema l body = Inr v \<longrightarrow>
            tasks_put_id l id_param body now st = ((404, Error ''Task not found''), st))
       \<and> tasks_get_id id_param (snd (tasks_get_id id_param st)) = tasks_get_id id_param st
       \<and> tasks_delete_id id_param (snd (tasks_delete_id id_param st)) = tasks_delete_id id_param st
       \<and> (\<forall>v. updateTaskSchema l body = Inr v \<longrightarrow>
            tasks_put_id l id_param body now (snd (tasks_put_id l id_param body now st))
              = tasks_put_id l id_param body now st)
       \<and> fst (fst (tasks_post l u body' now' new_id st')) \<in> {201, 400, 500}"
proof -
  have g: "tasks_get_id id_param st = ((404, Error ''Task not found''), st)"
    using assms(1,3)
    by (simp add: tasks_get_id_def select_by_id [OF assms(2)] js_index_take_filter find_absent)
  have d: "tasks_delete_id id_param st = ((404, Error ''Task not found''), st)"
    using assms(1,3)
    by (simp add: tasks_delete_id_def select_by_id [OF assms(2)] js_index_take_filter find_absent)
  have p: "tasks_put_id l id_param body now st = ((404, Error ''Task not found''), st)"
    if "updateTaskSchema l body = Inr v" for v
    using assms(1,3) that
    by (simp add: tasks_put_id_def select_by_id [OF assms(2)] js_index_take_filter find_absent)
  have c: "fst (fst (tasks_post l u body' now' new_id st')) \<in> {201, 400, 500}"
    by (auto simp: tasks_post_def split: sum.splits)
  from g d p c show ?thesis by simp
qed

theorem absent_id_is_404_witness:
  "tasks_get_id ''999'' example_store = ((404, Error ''Task not found''), example_store)
   \<and> tasks_delete_id ''999'' example_store = ((404, Error ''Task not found''), example_store)
   \<and> tasks_put_id example_lib ''999'' (JObj [(''status'', JStr ''done'')]) 1000 example_store =
       ((404, Error ''Task not found''), example_store)"
proof -
  have h: "parseInt ''999'' = Some 999"
    by (simp add: parseInt_def is_js_space_def digit_of_def)
  have r: "int4 999"
    by (simp add: int4_def)
  have a: "999 \<notin> task_id ` set (rows example_store)"
    by (simp add: example_store_def task_a_def task_b_def)
  have i: "updateTaskSchema example_lib (JObj [(''status'', JStr ''done'')]) =
      Inr \<lparr>u_title = None, u_description = None, u_status = Some ''done'', u_priority = None,
           u_assignedTo = None, u_dueDate = None\<rparr>"
    by (simp add: updateTaskSchema_def ap_def z_enum_def z_optional_def obj_get_def)
  show ?thesis
    using absent_id_is_404 [OF h r a, of example_lib "JObj [(''status'', JStr ''done'')]" 1000] i
    by simp
qed

text \<open>
  Claim C7. No update changes who created a task: whatever the id, the payload and the
  outcome of \<open>PUT /:id\<close>, the store holds afterwards the same tasks in the same order with
  the same creator, and a task the route returns has the creator that the stored task
  of its id had before.
\<close>

theorem put_keeps_creator:
  "map (\<lambda>t. (task_id t, created_by t)) (rows (snd (tasks_put_id l id_param body now st)))
     = map (\<lambda>t. (task_id t, created_by t)) (rows st)
   \<and> (\<forall>sc msg t'. fst (tasks_put_id l id_param body now st) = (sc, MessageTask msg (Some t')) \<longrightarrow>
         (\<exists>t \<in> set (rows st). task_id t = task_id t' \<and> created_by t = created_by t'))"
  using tasks_put_id_cases [of l id_param body now st]
  by (elim disjE exE) simp_all

theorem put_keeps_creator_witness:
  "map (\<lambda>t. (task_id t, created_by t))
     (rows (snd (tasks_put_id example_lib ''2''
        (JObj [(''title'', JStr ''Mine now''), (''createdBy'', JNum 99)]) 5000 example_store)))
     = [(1, 7), (2, 8)]
   \<and> (\<exists>t \<in> set (rows example_store). task_id t = 2 \<and> created_by t = 8)"
proof -
  have r: "map (\<lambda>t. (task_id t, created_by t)) (rows example_store) = [(1, 7), (2, 8)]"
    by (simp add: example_store_def task_a_def task_b_def)
  have "map (\<lambda>t. (task_id t, created_by t))
     (rows (snd (tasks_put_id example_lib ''2''
        (JObj [(''title'', JStr ''Mine now''), (''createdBy'', JNum 99)]) 5000 example_store)))
     = [(1, 7), (2, 8)]"
    using put_keeps_creator [of example_lib "''2''"
        "JObj [(''title'', JStr ''Mine now''), (''createdBy'', JNum 99)]" 5000 example_store,
        THEN conjunct1] r
    by simp
  moreover have "\<exists>t \<in> set (rows example_store). task_id t = 2 \<and> created_by t = 8"
    by (simp add: example_store_def task_a_def task_b_def)
  ultimately show ?thesis by (intro conjI)
qed

text \<open>
  Claim C1 says that the task created by \<open>POST /\<close> for the identity \<open>u\<close> has \<open>createdBy\<close>
  equal to the id of \<open>u\<close>, status \<open>todo\<close> and priority \<open>medium\<close> when the payload omits them.
  The route builds these values (the creator 7 under the key \<open>createdBy\<close>, the defaults
  of the schema), but no task is created: the table has no column under the keys
  \<open>createdBy\<close> and \<open>projectId\<close>, and the payload \<open>{title: "Fix bug", projectId: 5}\<close> sent by
  user 7, with project 5 and user 7 in the database, is answered 500 with the store as it
  was.
\<close>

theorem create_fix_bug_is_500:
  "createTaskSchema example_lib (JObj [(''title'', JStr ''Fix bug''), (''projectId'', JNum 5)]) =
     Inr \<lparr>c_title = ''Fix bug'', c_description = None, c_status = Some ''todo'',
          c_priority = Some ''medium'', c_projectId = 5, c_assignedTo = None, c_dueDate = None\<rparr>
   \<and> js_get (insert_values example_lib \<lparr>user_id = 7, user_role = ''user''\<rparr>
         \<lparr>c_title = ''Fix bug'', c_description = None, c_status = Some ''todo'',
          c_priority = Some ''medium'', c_projectId = 5, c_assignedTo = None, c_dueDate = None\<rparr>)
       ''createdBy'' = JsNumber 7
   \<and> tasks_prop ''createdBy'' = None
   \<and> tasks_prop ''projectId'' = None
   \<and> 5 \<in> set (project_ids example_store)
   \<and> 7 \<in> set (user_ids example_store)
   \<and> tasks_post example_lib \<lparr>user_id = 7, user_role = ''user''\<rparr>
       (JObj [(''title'', JStr ''Fix bug''), (''projectId'', JNum 5)]) 1000 3 example_store =
       ((500, Error ''Failed to create task''), example_store)"
proof -
  have v: "createTaskSchema example_lib (JObj [(''title'', JStr ''Fix bug''), (''projectId'', JNum 5)]) =
     Inr \<lparr>c_title = ''Fix bug'', c_description = None, c_status = Some ''todo'',
          c_priority = Some ''medium'', c_projectId = 5, c_assignedTo = None, c_dueDate = None\<rparr>"
    by (simp add: createTaskSchema_def ap_def z_string_def z_optional_def z_default_def z_enum_def
        z_number_int_positive_def check_min_def obj_get_def)
  have c: "js_get (insert_values example_lib \<lparr>user_id = 7, user_role = ''user''\<rparr>
         \<lparr>c_title = ''Fix bug'', c_description = None, c_status = Some ''todo'',
          c_priority = Some ''medium'', c_projectId = 5, c_assignedTo = None, c_dueDate = None\<rparr>)
       ''createdBy'' = JsNumber 7"
    by (simp add: insert_values_def js_get_def)
  have s: "5 \<in> set (project_ids example_store)" "7 \<in> set (user_ids example_store)"
    by (simp_all add: example_store_def)
  from v c s tasks_prop_undefined(3,5) tasks_post_valid_fails [OF v] show ?thesis
    by (intro conjI)
qed


text \<open>
  Claim C3 says that \<open>GET /\<close> without parameters returns every task, most recent first,
  with their number. The route orders by \<open>tasks.createdAt\<close>, which the table object does
  not have (the column is \<open>created_at\<close>): the request without parameters over a store of two
  tasks is answered 500.
\<close>

theorem list_without_filter_is_500:
  "rows example_store = [task_a, task_b]
   \<and> tasks_get no_filter example_store = ((500, Error ''Failed to fetch tasks''), example_store)"
proof -
  have "rows example_store = [task_a, task_b]"
    by (simp add: example_store_def)
  then show ?thesis
    using tasks_get_fails by (intro conjI)
qed

text \<open>
  Claim C6 says that \<open>PUT /:id\<close> on a task of the store overwrites the fields present in a
  valid payload and refreshes \<open>updatedAt\<close>, and that the empty payload is accepted. The
  route hands \<open>set\<close> an object with the key \<open>updatedAt\<close>, which names no column (the column
  is \<open>updated_at\<close>): for task 2 of the store the empty payload, and the payload
  \<open>{status: "in_progress", priority: "high"}\<close>, pass the schema and are answered 500, the
  task staying as it was.
\<close>

theorem empty_update_is_500:
  "updateTaskSchema example_lib (JObj []) =
     Inr \<lparr>u_title = None, u_description = None, u_status = None, u_priority = None,
          u_assignedTo = None, u_dueDate = None\<rparr>
   \<and> task_b \<in> set (rows example_store) \<and> task_id task_b = 2
   \<and> tasks_put_id example_lib ''2'' (JObj []) 5000 example_store =
       ((500, Error ''Failed to update task''), example_store)
   \<and> tasks_put_id example_lib ''2''
       (JObj [(''status'', JStr ''in_progress''), (''priority'', JStr ''high'')]) 5000 example_store =
       ((500, Error ''Failed to update task''), example_store)
   \<and> tasks_prop ''updatedAt'' = None"
proof -
  have h: "parseInt ''2'' = Some 2"
    by (simp add: parseInt_def is_js_space_def digit_of_def)
  have r: "int4 2"
    by (simp add: int4_def)
  have e: "2 \<in> task_id ` set (rows example_store)"
    by (simp add: example_store_def task_a_def task_b_def)
  have v0: "updateTaskSchema example_lib (JObj []) =
     Inr \<lparr>u_title = None, u_description = None, u_status = None, u_priority = None,
          u_assignedTo = None, u_dueDate = None\<rparr>"
    by (simp add: updateTaskSchema_def ap_def z_optional_def obj_get_def)
  have v1: "updateTaskSchema example_lib
       (JObj [(''status'', JStr ''in_progress''), (''priority'', JStr ''high'')]) =
     Inr \<lparr>u_title = None, u_description = None, u_status = Some ''in_progress'',
          u_priority = Some ''high'', u_assignedTo = None, u_dueDate = None\<rparr>"
    by (simp add: updateTaskSchema_def ap_def z_optional_def z_enum_def obj_get_def)
  have b: "task_b \<in> set (rows example_store)" "task_id task_b = 2"
    by (simp_all add: example_store_def task_b_def)
  from v0 b tasks_put_id_existing_fails [OF h r v0 e] tasks_put_id_existing_fails [OF h r v1 e]
    tasks_prop_undefined(2)
  show ?thesis by (intro conjI)
qed


end
